theory Spec2Isabelle
  imports Main "HOL-Library.AList"
begin

section \<open>Python values used by the shell\<close>

text \<open>
  Command lines are text of code points below 256, one \<open>char\<close> per character. The
  exceptions are the ones that \<open>execute_command\<close> and \<open>myshell\<close> of \<open>main.py\<close> can
  raise or catch.
\<close>

datatype exn =
    ValueError string
  | IndexError
  | UnboundLocalError string
  | FileNotFoundError
  | OSError string
  | OverflowError string
  | KeyboardInterrupt
  | SystemExit

text \<open>\<open>str(e)\<close>, as printed by \<open>except Exception as e\<close>.\<close>

fun exn_str :: "exn \<Rightarrow> string" where
  "exn_str (ValueError m) = m"
| "exn_str IndexError = ''list index out of range''"
| "exn_str (UnboundLocalError m) = m"
| "exn_str FileNotFoundError = ''No such file or directory''"
| "exn_str (OSError m) = m"
| "exn_str (OverflowError m) = m"
| "exn_str KeyboardInterrupt = ''''"
| "exn_str SystemExit = ''0''"

text \<open>\<open>KeyboardInterrupt\<close> and \<open>SystemExit\<close> derive from \<open>BaseException\<close> only.\<close>

fun is_Exception :: "exn \<Rightarrow> bool" where
  "is_Exception KeyboardInterrupt = False"
| "is_Exception SystemExit = False"
| "is_Exception _ = True"

subsection \<open>Strings\<close>

text \<open>\<open>sep.join(xs)\<close>.\<close>

fun join :: "string \<Rightarrow> string list \<Rightarrow> string" where
  "join sep [] = []"
| "join sep [x] = x"
| "join sep (x # y # ys) = x @ sep @ join sep (y # ys)"

text \<open>\<open>s.split(c)\<close> for a one-character separator: always at least one piece.\<close>

fun split_on :: "char \<Rightarrow> string \<Rightarrow> string list" where
  "split_on c [] = [[]]"
| "split_on c (x # xs) =
     (if x = c then [] # split_on c xs
      else (case split_on c xs of
              [] \<Rightarrow> [[x]]
            | p # ps \<Rightarrow> (x # p) # ps))"

text \<open>\<open>s.split("=", 1)\<close>, used where the source has already checked \<open>"=" in s\<close>.\<close>

definition split_eq1 :: "string \<Rightarrow> string \<times> string" where
  "split_eq1 s = (takeWhile (\<lambda>c. c \<noteq> CHR ''='') s, drop 1 (dropWhile (\<lambda>c. c \<noteq> CHR ''='') s))"

text \<open>The characters for which \<open>str.isspace\<close> holds: the ASCII ones, the next-line
  control \<open>0x85\<close> and the no-break space \<open>0xA0\<close>; \<open>s.strip()\<close> removes them at both ends.\<close>

definition py_isspace :: "char \<Rightarrow> bool" where
  "py_isspace c =
     (let n = of_char c :: nat
      in (9 \<le> n \<and> n \<le> 13) \<or> (28 \<le> n \<and> n \<le> 32) \<or> n = 133 \<or> n = 160)"

definition py_strip :: "string \<Rightarrow> string" where
  "py_strip s = rev (dropWhile py_isspace (rev (dropWhile py_isspace s)))"

text \<open>\<open>s.endswith(c)\<close> for a one-character suffix.\<close>

definition endswith :: "string \<Rightarrow> char \<Rightarrow> bool" where
  "endswith s c = (s \<noteq> [] \<and> last s = c)"

text \<open>\<open>str(n)\<close> for an integer: decimal digits, with a sign when negative.\<close>

fun dec_digits :: "nat \<Rightarrow> string" where
  "dec_digits n =
     (if n < 10 then [char_of (48 + n)]
      else dec_digits (n div 10) @ [char_of (48 + n mod 10)])"

declare dec_digits.simps [simp del]

definition py_str :: "int \<Rightarrow> string" where
  "py_str i = (if i < 0 then CHR ''-'' # dec_digits (nat (- i)) else dec_digits (nat i))"

text \<open>
  \<open>s.isdigit()\<close>: every character is a digit and there is at least one. Below 256 the
  digits of \<open>str.isdigit\<close> are \<open>0\<close> to \<open>9\<close> and the superscripts \<open>0xB2\<close>, \<open>0xB3\<close> and
  \<open>0xB9\<close>.
\<close>

definition is_ascii_digit :: "char \<Rightarrow> bool" where
  "is_ascii_digit c = (let n = of_char c :: nat in 48 \<le> n \<and> n \<le> 57)"

definition is_digit_char :: "char \<Rightarrow> bool" where
  "is_digit_char c = (is_ascii_digit c \<or> of_char c \<in> set [178, 179, 185 :: nat])"

definition py_isdigit :: "string \<Rightarrow> bool" where
  "py_isdigit s = (s \<noteq> [] \<and> list_all is_digit_char s)"

text \<open>
  \<open>int(s)\<close>, for the strings the source passes to it: those with \<open>s.isdigit()\<close>. CPython
  (3.11, default settings) counts the leading decimal digits and raises \<open>ValueError\<close> when
  there are more than \<open>sys.get_int_max_str_digits()\<close> of them, 4300; it raises
  \<open>ValueError\<close> too when a character that is not a decimal digit follows, the message
  showing at most 200 characters of \<open>repr(s)\<close>.
\<close>

definition int_max_str_digits :: nat where
  "int_max_str_digits = 4300"

definition py_int :: "string \<Rightarrow> exn + int" where
  "py_int s =
     (let digits = takeWhile is_ascii_digit s in
      if int_max_str_digits < length digits then
        Inl (ValueError
          (''Exceeds the limit (4300 digits) for integer string conversion: value has '' @
           py_str (int (length digits)) @
           '' digits; use sys.set_int_max_str_digits() to increase the limit''))
      else if digits \<noteq> s then
        Inl (ValueError
          (''invalid literal for int() with base 10: '' @ take 200 ([CHR 0x27] @ s @ [CHR 0x27])))
      else Inr (foldl (\<lambda>a c. 10 * a + (int (of_char c) - 48)) 0 s))"

section \<open>The tokenizer: \<open>shlex.split\<close>\<close>

text \<open>
  \<open>execute_command\<close> tokenizes with \<open>shlex.split(command)\<close> of the Python standard
  library: POSIX mode, \<open>whitespace_split = True\<close>, no comment characters. The model is
  the state machine of \<open>shlex.read_token\<close>: state \<open>' '\<close> between words, state \<open>'a'\<close>
  inside a word, a quote state for each of the two quote characters, and the escape
  state, which remembers the state to return to (\<open>escapedstate\<close>). The token under
  construction and the flag \<open>quoted\<close> are carried along; a token is emitted when it is
  non-empty or was quoted.
\<close>

definition shlex_whitespace :: "char \<Rightarrow> bool" where
  "shlex_whitespace c = (c = CHR '' '' \<or> c = CHR 0x09 \<or> c = CHR 0x0D \<or> c = CHR 0x0A)"

definition shlex_quote :: "char \<Rightarrow> bool" where
  "shlex_quote c = (c = CHR 0x27 \<or> c = CHR 0x22)"

definition shlex_escape :: "char \<Rightarrow> bool" where
  "shlex_escape c = (c = CHR 0x5C)"

datatype lex_state =
    InSpace
  | InWord
  | InQuote char
  | InEscape "char option"

text \<open>What \<open>read_token\<close> returns at the end of the input outside quotes: the pending
  token, unless it is empty and was never quoted.\<close>

definition emit_last :: "string \<Rightarrow> bool \<Rightarrow> string list" where
  "emit_last tok quoted = (if tok = [] \<and> \<not> quoted then [] else [tok])"

definition cons_token :: "string \<Rightarrow> exn + string list \<Rightarrow> exn + string list" where
  "cons_token tok r = (case r of Inl e \<Rightarrow> Inl e | Inr ts \<Rightarrow> Inr (tok # ts))"

fun lex :: "lex_state \<Rightarrow> string \<Rightarrow> bool \<Rightarrow> string \<Rightarrow> exn + string list" where
  "lex InSpace tok quoted [] = Inr (emit_last tok quoted)"
| "lex InSpace tok quoted (c # cs) =
     (if shlex_whitespace c then
        (if tok \<noteq> [] \<or> quoted then cons_token tok (lex InSpace [] False cs)
         else lex InSpace tok quoted cs)
      else if shlex_escape c then lex (InEscape None) tok quoted cs
      else if shlex_quote c then lex (InQuote c) tok quoted cs
      else lex InWord [c] quoted cs)"
| "lex InWord tok quoted [] = Inr (emit_last tok quoted)"
| "lex InWord tok quoted (c # cs) =
     (if shlex_whitespace c then
        (if tok \<noteq> [] \<or> quoted then cons_token tok (lex InSpace [] False cs)
         else lex InSpace tok quoted cs)
      else if shlex_quote c then lex (InQuote c) tok quoted cs
      else if shlex_escape c then lex (InEscape None) tok quoted cs
      else lex InWord (tok @ [c]) quoted cs)"
| "lex (InQuote q) tok quoted [] = Inl (ValueError ''No closing quotation'')"
| "lex (InQuote q) tok quoted (c # cs) =
     (if c = q then lex InWord tok True cs
      else if shlex_escape c \<and> q = CHR 0x22 then lex (InEscape (Some q)) tok True cs
      else lex (InQuote q) (tok @ [c]) True cs)"
| "lex (InEscape back) tok quoted [] = Inl (ValueError ''No escaped character'')"
| "lex (InEscape back) tok quoted (c # cs) =
     (case back of
        None \<Rightarrow> lex InWord (tok @ [c]) quoted cs
      | Some q \<Rightarrow>
          lex (InQuote q)
            (if c \<noteq> CHR 0x5C \<and> c \<noteq> q then tok @ [CHR 0x5C, c] else tok @ [c]) quoted cs)"

definition shlex_split :: "string \<Rightarrow> exn + string list" where
  "shlex_split s = lex InSpace [] False s"

section \<open>Shell state and the operating system\<close>

text \<open>
  A process handle is the number the model gave the process when it was started. A job is
  the dictionary \<open>{"process": ..., "command": ..., "status": ...}\<close> stored in
  \<open>self.jobs\<close> (its key \<open>"command"\<close> is the field \<open>job_command\<close>); the two status strings \<open>"running"\<close> and \<open>"suspended"\<close> are the
  constructors of \<open>job_status\<close>.
\<close>

datatype job_status = Running | Suspended

record job =
  process :: nat
  job_command :: string
  status :: job_status

datatype signal = SIGTSTP | SIGCONT

datatype open_mode = Truncate | Append

text \<open>Where a started process reads from or writes to.\<close>

datatype stream =
    Inherit
  | PIPE
  | PipeOf nat
  | ShellStdout
  | ShellStderr
  | File string

text \<open>Everything the shell does to the outside world, in the order it does it.\<close>

datatype event =
    Print string
  | Spawn nat "string list" stream stream stream
  | OpenFile string open_mode
  | CloseFile string
  | ClosePipe nat
  | SendSignal nat signal
  | Wait nat
  | Sleep int
  | Persist string

text \<open>
  The fields of \<open>MyShell\<close> that the execution engine uses. \<open>jobs\<close> and \<open>aliases\<close>
  are Python dictionaries, which keep insertion order: association lists, updated with
  \<open>AList.update\<close> and \<open>AList.delete\<close>. \<open>foreground_process\<close> is \<open>None\<close> both while
  the attribute does not exist yet (before the first command has returned) and while it
  holds \<open>None\<close>: \<open>handle_signal\<close> reads it as
  \<open>hasattr(self, 'foreground_process') and self.foreground_process\<close>.
  \<open>next_pid\<close> numbers the processes started; \<open>trace\<close> collects the events.
\<close>

record shell =
  aliases :: "(string \<times> string) list"
  jobs :: "(int \<times> job) list"
  next_job_id :: int
  foreground_process :: "nat option"
  foreground_command :: "string option"
  next_pid :: nat
  trace :: "event list"

text \<open>\<open>MyShell.__init__\<close>, with the aliases read from the alias file as a parameter.\<close>

definition init_shell :: "(string \<times> string) list \<Rightarrow> shell" where
  "init_shell al =
     \<lparr>aliases = al, jobs = [], next_job_id = 1, foreground_process = None,
      foreground_command = None, next_pid = 0, trace = []\<rparr>"

text \<open>
  What the operating system decides: whether a program starts (\<open>None\<close>) or
  \<open>Popen\<close>/\<open>run\<close> raises, whether \<open>open\<close> raises, whether \<open>poll()\<close> finds a process
  still alive, whether a keyboard interrupt or the shell's suspend signal arrives
  while the shell waits for a process, whether \<open>time.sleep\<close> raises (it does for a
  number of seconds too large for the platform, and when interrupted), and whether a
  built-in outside the execution engine raises on its arguments.
\<close>

record os_env =
  os_spawn :: "string list \<Rightarrow> exn option"
  os_open :: "string \<Rightarrow> open_mode \<Rightarrow> exn option"
  poll_alive :: "nat \<Rightarrow> bool"
  wait_interrupt :: "nat \<Rightarrow> bool"
  wait_sigtstp :: "nat \<Rightarrow> bool"
  os_sleep :: "int \<Rightarrow> exn option"
  collaborator :: "string \<Rightarrow> string list \<Rightarrow> exn option"

text \<open>\<open>subprocess.Popen(args)\<close> reads \<open>args[0]\<close>, so an empty vector raises
  \<open>IndexError\<close> before the operating system is asked.\<close>

definition spawn_error :: "os_env \<Rightarrow> string list \<Rightarrow> exn option" where
  "spawn_error env argv = (if argv = [] then Some IndexError else os_spawn env argv)"

definition emit :: "event list \<Rightarrow> shell \<Rightarrow> shell" where
  "emit es s = s\<lparr>trace := trace s @ es\<rparr>"

text \<open>Starting a process: the handle is \<open>next_pid\<close>.\<close>

definition spawn :: "string list \<Rightarrow> stream \<Rightarrow> stream \<Rightarrow> stream \<Rightarrow> shell \<Rightarrow> shell" where
  "spawn argv i out err s =
     s\<lparr>next_pid := Suc (next_pid s), trace := trace s @ [Spawn (next_pid s) argv i out err]\<rparr>"

section \<open>The signal handler\<close>

text \<open>\<open>MyShell.handle_signal\<close>. A command text of \<open>None\<close> is printed as \<open>None\<close>.\<close>

definition handle_signal :: "signal \<Rightarrow> shell \<Rightarrow> shell" where
  "handle_signal signum s =
     (if signum = SIGTSTP then
        (case foreground_process s of
           None \<Rightarrow> s
         | Some p \<Rightarrow>
             (let cmd = (case foreground_command s of None \<Rightarrow> ''None'' | Some c \<Rightarrow> c);
                  job_id = next_job_id s
              in s\<lparr>jobs := AList.update job_id
                              \<lparr>process = p, job_command = cmd, status = Suspended\<rparr> (jobs s),
                    next_job_id := job_id + 1,
                    foreground_process := None,
                    foreground_command := None,
                    trace := trace s @
                      [Print (CHR 0x0A # ''Suspended''),
                       SendSignal p SIGTSTP,
                       Print (''['' @ py_str job_id @ ''] Suspended '' @ cmd)]\<rparr>))
      else s)"

text \<open>
  A blocking wait on process \<open>p\<close>: the suspend signal, when it arrives, runs the handler
  on the state of that moment; the result says whether a keyboard interrupt ended the
  wait.
\<close>

definition wait_for :: "os_env \<Rightarrow> nat \<Rightarrow> shell \<Rightarrow> bool \<times> shell" where
  "wait_for env p s =
     (let s1 = emit [Wait p] s;
          s2 = (if wait_sigtstp env p then handle_signal SIGTSTP s1 else s1)
      in (wait_interrupt env p, s2))"

section \<open>Built-in commands of the engine\<close>

datatype outcome =
    Returned
  | Raised exn
  | Delegated string

text \<open>The loop of \<open>jobs\<close> over the snapshot \<open>list(self.jobs.items())\<close>.\<close>

fun list_jobs :: "os_env \<Rightarrow> (int \<times> job) list \<Rightarrow> shell \<Rightarrow> shell" where
  "list_jobs env [] s = s"
| "list_jobs env ((job_id, job_info) # rest) s =
     (let st = (if poll_alive env (process job_info) then ''Running'' else ''Done'');
          s1 = emit [Print (''['' @ py_str job_id @ ''] '' @ st @ '' '' @ job_command job_info)] s;
          s2 = (if st = ''Done'' then s1\<lparr>jobs := AList.delete job_id (jobs s1)\<rparr> else s1)
      in list_jobs env rest s2)"

definition builtin_jobs :: "os_env \<Rightarrow> shell \<Rightarrow> outcome \<times> shell" where
  "builtin_jobs env s = (Returned, list_jobs env (jobs s) s)"

definition builtin_fg :: "os_env \<Rightarrow> string list \<Rightarrow> shell \<Rightarrow> outcome \<times> shell" where
  "builtin_fg env args s =
     (if args \<noteq> [] \<and> py_isdigit (hd args) then
        (case py_int (hd args) of
           Inl e \<Rightarrow> (Raised e, s)
         | Inr job_id \<Rightarrow>
             (case map_of (jobs s) job_id of
                Some job_info \<Rightarrow>
                  (let s1 = s\<lparr>jobs := AList.delete job_id (jobs s)\<rparr>;
                       s2 = emit [Print (job_command job_info)] s1;
                       (interrupted, s3) = wait_for env (process job_info) s2
                   in (Returned, if interrupted then emit [Print ''^C''] s3 else s3))
              | None \<Rightarrow> (Returned, emit [Print (''fg: job not found: '' @ py_str job_id)] s)))
      else (Returned, emit [Print ''Usage: fg [job_id]''] s))"

text \<open>
  The body of the \<open>bg\<close> branch, given what the local variable \<open>job_info\<close> is bound to.
  The first condition reads \<open>job_info\<close> as soon as \<open>job_id in self.jobs\<close> holds.
\<close>

definition bg_body :: "os_env \<Rightarrow> int \<Rightarrow> job option \<Rightarrow> shell \<Rightarrow> outcome \<times> shell" where
  "bg_body env job_id job_info s =
     (if job_id \<in> fst ` set (jobs s) then
        (case job_info of
           None \<Rightarrow>
             (Raised (UnboundLocalError
                ''cannot access local variable 'job_info' where it is not associated with a value''), s)
         | Some ji \<Rightarrow>
             (if \<not> poll_alive env (process ji) \<and> status ji = Suspended then
                (Returned,
                 (emit [Print (''['' @ py_str job_id @ ''] '' @ job_command ji @ '' &''),
                        SendSignal (process ji) SIGCONT] s)
                 \<lparr>jobs := AList.update job_id (ji\<lparr>status := Running\<rparr>) (jobs s)\<rparr>)
              else (Returned,
                    emit [Print (''bg: job '' @ py_str job_id @
                                 '' is already running or not suspended'')] s)))
      else (Returned, emit [Print (''bg: job not found: '' @ py_str job_id)] s))"

text \<open>In \<open>execute_command\<close> nothing binds \<open>job_info\<close> on the way to the \<open>bg\<close> branch:
  its only assignments are in the \<open>jobs\<close> and \<open>fg\<close> branches.\<close>

definition builtin_bg :: "os_env \<Rightarrow> string list \<Rightarrow> shell \<Rightarrow> outcome \<times> shell" where
  "builtin_bg env args s =
     (if args \<noteq> [] \<and> py_isdigit (hd args) then
        (case py_int (hd args) of
           Inl e \<Rightarrow> (Raised e, s)
         | Inr job_id \<Rightarrow> bg_body env job_id None s)
      else (Returned, emit [Print ''Usage: bg [job_id]''] s))"

definition builtin_echo :: "string list \<Rightarrow> shell \<Rightarrow> outcome \<times> shell" where
  "builtin_echo args s = (Returned, emit [Print (join '' '' args)] s)"

text \<open>
  \<open>sleep\<close>: the \<open>try\<close> around \<open>time.sleep(int(args[0]))\<close> catches \<open>ValueError\<close> only.
  The event \<open>Sleep n\<close> is the call \<open>time.sleep(n)\<close>.
\<close>

fun is_ValueError :: "exn \<Rightarrow> bool" where
  "is_ValueError (ValueError m) = True"
| "is_ValueError _ = False"

definition builtin_sleep :: "os_env \<Rightarrow> string list \<Rightarrow> shell \<Rightarrow> outcome \<times> shell" where
  "builtin_sleep env args s =
     (if args \<noteq> [] \<and> py_isdigit (hd args) then
        (case (case py_int (hd args) of
                 Inl e \<Rightarrow> (Some e, s)
               | Inr n \<Rightarrow> (os_sleep env n, emit [Sleep n] s)) of
           (None, s1) \<Rightarrow> (Returned, s1)
         | (Some e, s1) \<Rightarrow>
             (if is_ValueError e then (Returned, emit [Print ''sleep: invalid time interval''] s1)
              else (Raised e, s1)))
      else (Returned, emit [Print ''Usage: sleep <seconds>''] s))"

definition builtin_exit :: "shell \<Rightarrow> outcome \<times> shell" where
  "builtin_exit s =
     (Raised SystemExit, emit [Persist ''history'', Persist ''aliases'', Persist ''config''] s)"

definition builtin_alias :: "string list \<Rightarrow> shell \<Rightarrow> outcome \<times> shell" where
  "builtin_alias args s =
     (if args = [] then
        (Returned, emit (map (\<lambda>(a, c). Print (a @ ''='' @ [CHR 0x27] @ c @ [CHR 0x27])) (aliases s)) s)
      else if CHR ''='' \<in> set (hd args) then
        (let (name, val) = split_eq1 (hd args)
         in (Returned, emit [Persist ''aliases''] (s\<lparr>aliases := AList.update name val (aliases s)\<rparr>)))
      else (Returned, emit [Print ''Usage: alias [name='command'] or alias''] s))"

definition builtin_unalias :: "string list \<Rightarrow> shell \<Rightarrow> outcome \<times> shell" where
  "builtin_unalias args s =
     (if args \<noteq> [] \<and> hd args \<in> fst ` set (aliases s) then
        (Returned, emit [Persist ''aliases''] (s\<lparr>aliases := AList.delete (hd args) (aliases s)\<rparr>))
      else (Returned, emit [Print ''Usage: unalias [name]''] s))"

section \<open>The built-in command table\<close>

text \<open>
  \<open>execute_command\<close> compares the command name with each built-in name in turn. The
  built-ins of the execution engine are modelled in full; the others (file utilities,
  environment and shell variables, history, placeholders) touch neither \<open>self.jobs\<close> nor
  \<open>self.next_job_id\<close> and start no tracked process: they are collaborators, and the model
  only records that one of them was called, or the exception that left it (\<open>cp\<close> without
  arguments raises \<open>IndexError\<close>, for one).
\<close>

datatype builtin =
    B_exit | B_alias | B_unalias | B_jobs | B_fg | B_bg | B_echo | B_sleep | B_collaborator

definition lookup_builtin :: "string \<Rightarrow> builtin option" where
  "lookup_builtin name =
     (if name \<in> set [''cd'']
        then Some B_collaborator
      else if name = ''exit'' then Some B_exit
      else if name \<in> set [''help'']
        then Some B_collaborator
      else if name = ''alias'' then Some B_alias
      else if name = ''unalias'' then Some B_unalias
      else if name \<in> set [''history'']
        then Some B_collaborator
      else if name = ''jobs'' then Some B_jobs
      else if name = ''fg'' then Some B_fg
      else if name = ''bg'' then Some B_bg
      else if name \<in> set [''setenv'', ''getenv'', ''setvar'', ''getvar'']
        then Some B_collaborator
      else if name = ''echo'' then Some B_echo
      else if name \<in> set [''pwd'', ''ls'', ''mkdir'', ''rm'', ''cp'', ''mv'', ''cat'', ''head'', 
            ''tail'', ''grep'', ''find'', ''du'', ''df'']
        then Some B_collaborator
      else if name = ''sleep'' then Some B_sleep
      else if name \<in> set [''date'', ''calc'', ''checksum'', ''type'', ''watch'', ''man'', 
            ''edit'', ''tree'', ''sort'', ''wc'', ''patch'', ''tar'', ''gzip'', 
            ''gunzip'', ''mount'', ''umount'', ''top'', ''kill'', ''login'', 
            ''logout'', ''whoami'', ''historysearch'', ''repeat'', ''geturl'', 
            ''config'', ''theme'', ''keybind'', ''notify'', ''progress'', 
            ''script'', ''debug'', ''timeit'', ''network'', ''ping'', 
            ''dnslookup'', ''portscan'', ''ssh'', ''ftp'', ''mail'', ''weather'', 
            ''translate'', ''news'', ''stocks'', ''currency'', ''reminder'', 
            ''todo'', ''calculator'', ''unitconv'', ''colortest'', ''asciiart'', 
            ''qrgen'', ''barcode'', ''encrypt'', ''decrypt'', ''audioplay'', 
            ''videoplay'', ''imageview'', ''pdfview'', ''systeminfo'', 
            ''processmonitor'', ''diskmanager'', ''usermanager'', 
            ''servicemanager'', ''packagemanager'', ''virtualenv'', ''docker'', 
            ''git'', ''sqlite'', ''blockchain'', ''cloud'']
        then Some B_collaborator
      else None)"

section \<open>External commands\<close>

subsection \<open>Pipelines\<close>

text \<open>The list comprehension \<open>[shlex.split(p) for p in ...]\<close>: the first piece that
  fails to tokenize raises.\<close>

fun tokenize_all :: "string list \<Rightarrow> exn + string list list" where
  "tokenize_all [] = Inr []"
| "tokenize_all (p # ps) =
     (case shlex_split p of
        Inl e \<Rightarrow> Inl e
      | Inr ws \<Rightarrow> (case tokenize_all ps of Inl e \<Rightarrow> Inl e | Inr wss \<Rightarrow> Inr (ws # wss)))"

definition build_pipeline :: "string \<Rightarrow> exn + string list list" where
  "build_pipeline command = tokenize_all (split_on CHR ''|'' command)"

text \<open>
  The loop over the stages. \<open>last_output\<close> is the process whose standard output pipe the
  next stage reads; \<open>proc\<close> is the variable \<open>process\<close>. A stage is the last one exactly
  when no stage follows it (\<open>i < len(pipes) - 1\<close> otherwise).
\<close>

fun spawn_stages ::
  "os_env \<Rightarrow> nat option \<Rightarrow> nat option \<Rightarrow> string list list \<Rightarrow> shell \<Rightarrow> exn option \<times> nat option \<times> shell"
where
  "spawn_stages env last_output proc [] s = (None, proc, s)"
| "spawn_stages env last_output proc (cmd_parts # rest) s =
     (let stdout_pipe = (if rest \<noteq> [] then PIPE else ShellStdout) in
      case spawn_error env cmd_parts of
        Some e \<Rightarrow> (Some e, proc, s)
      | None \<Rightarrow>
          (let p = next_pid s;
               s1 = spawn cmd_parts (case last_output of None \<Rightarrow> Inherit | Some q \<Rightarrow> PipeOf q)
                      stdout_pipe ShellStderr s;
               s2 = (case last_output of None \<Rightarrow> s1 | Some q \<Rightarrow> emit [ClosePipe q] s1)
           in spawn_stages env (if stdout_pipe = PIPE then Some p else None) (Some p) rest s2))"

definition run_pipeline :: "os_env \<Rightarrow> string \<Rightarrow> shell \<Rightarrow> outcome \<times> shell" where
  "run_pipeline env command s =
     (case build_pipeline command of
        Inl e \<Rightarrow> (Raised e, s)
      | Inr pipes \<Rightarrow>
          (case spawn_stages env None None pipes s of
             (Some e, _, s1) \<Rightarrow> (Raised e, s1)
           | (None, None, s1) \<Rightarrow> (Returned, s1)
           | (None, Some p, s1) \<Rightarrow>
               (let (interrupted, s2) = wait_for env p s1
                in (if interrupted then Raised KeyboardInterrupt else Returned, s2))))"

subsection \<open>A single stage: redirection and background\<close>

datatype redirect =
    NoRedirect
  | ToStdout string open_mode
  | ToStderr string
  | ToBoth string

datatype scan = Abort string | Scanned "string list" redirect

text \<open>
  The loop \<open>for i, part in enumerate(parts)\<close>. \<open>i + 1 < len(parts)\<close> holds exactly when a
  token follows \<open>part\<close>, and \<open>parts[i + 1]\<close> is then that token. The loop stops at the
  first operator: with a target it leaves by \<open>break\<close>, without one it prints and returns.
\<close>

fun scan_parts :: "string list \<Rightarrow> string list \<Rightarrow> scan" where
  "scan_parts command_parts [] = Scanned command_parts NoRedirect"
| "scan_parts command_parts (part # rest) =
     (if part = ''>'' then
        (case rest of
           t # _ \<Rightarrow> Scanned command_parts (ToStdout t Truncate)
         | [] \<Rightarrow> Abort ''Error: No file specified for output redirection.'')
      else if part = ''>>'' then
        (case rest of
           t # _ \<Rightarrow> Scanned command_parts (ToStdout t Append)
         | [] \<Rightarrow> Abort ''Error: No file specified for appending output.'')
      else if part = ''2>'' then
        (case rest of
           t # _ \<Rightarrow> Scanned command_parts (ToStderr t)
         | [] \<Rightarrow> Abort ''Error: No file specified for stderr redirection.'')
      else if part = ''&>'' then
        (case rest of
           t # _ \<Rightarrow> Scanned command_parts (ToBoth t)
         | [] \<Rightarrow> Abort ''Error: No file specified for stdout and stderr redirection.'')
      else scan_parts (command_parts @ [part]) rest)"

text \<open>The file a redirection opens and the mode; \<open>stdout_redirect\<close> and
  \<open>stderr_redirect\<close> as passed to the process.\<close>

fun redirect_target :: "redirect \<Rightarrow> (string \<times> open_mode) option" where
  "redirect_target NoRedirect = None"
| "redirect_target (ToStdout t m) = Some (t, m)"
| "redirect_target (ToStderr t) = Some (t, Truncate)"
| "redirect_target (ToBoth t) = Some (t, Truncate)"

fun stdout_redirect :: "redirect \<Rightarrow> stream" where
  "stdout_redirect (ToStdout t m) = File t"
| "stdout_redirect (ToBoth t) = File t"
| "stdout_redirect _ = Inherit"

fun stderr_redirect :: "redirect \<Rightarrow> stream" where
  "stderr_redirect (ToStderr t) = File t"
| "stderr_redirect (ToBoth t) = File t"
| "stderr_redirect _ = Inherit"

text \<open>The \<open>finally\<close> clause: each of the two variables that holds a file is closed.\<close>

fun close_redirects :: "redirect \<Rightarrow> shell \<Rightarrow> shell" where
  "close_redirects NoRedirect s = s"
| "close_redirects (ToStdout t m) s = emit [CloseFile t] s"
| "close_redirects (ToStderr t) s = emit [CloseFile t] s"
| "close_redirects (ToBoth t) s = emit [CloseFile t, CloseFile t] s"

text \<open>The body of the \<open>try\<close> block. The result is the exception raised in it, if any.\<close>

definition try_launch ::
  "os_env \<Rightarrow> string \<Rightarrow> string list \<Rightarrow> redirect \<Rightarrow> shell \<Rightarrow> exn option \<times> shell" where
  "try_launch env command command_parts r s =
     (if endswith command CHR ''&'' then
        (let bg_command = py_strip (join '' '' (butlast command_parts)) in
         case shlex_split bg_command of
           Inl e \<Rightarrow> (Some e, s)
         | Inr bg_parts \<Rightarrow>
             (if bg_parts \<noteq> [] then
                (case spawn_error env bg_parts of
                   Some e \<Rightarrow> (Some e, s)
                 | None \<Rightarrow>
                     (let p = next_pid s;
                          s1 = spawn bg_parts Inherit PIPE PIPE s;
                          job_id = next_job_id s1;
                          s2 = s1\<lparr>jobs := AList.update job_id
                                   \<lparr>process = p, job_command = bg_command, status = Running\<rparr> (jobs s1)\<rparr>;
                          s3 = emit [Print (''['' @ py_str job_id @ ''] '' @ bg_command @ '' &'')] s2
                      in (None, s3\<lparr>next_job_id := next_job_id s3 + 1\<rparr>)))
              else (None, s)))
      else
        (case spawn_error env command_parts of
           Some e \<Rightarrow> (Some e, s)
         | None \<Rightarrow>
             (let p = next_pid s;
                  s1 = spawn command_parts Inherit (stdout_redirect r) (stderr_redirect r) s;
                  (interrupted, s2) = wait_for env p s1
              in (if interrupted then Some KeyboardInterrupt else None, s2))))"

text \<open>The \<open>except\<close> clauses and the \<open>finally\<close> clause around it.\<close>

definition run_single ::
  "os_env \<Rightarrow> string \<Rightarrow> string \<Rightarrow> string list \<Rightarrow> shell \<Rightarrow> outcome \<times> shell" where
  "run_single env command command_name parts s =
     (case scan_parts [] parts of
        Abort msg \<Rightarrow> (Returned, emit [Print msg] s)
      | Scanned command_parts r \<Rightarrow>
          (case (case redirect_target r of
                   None \<Rightarrow> Inr s
                 | Some (t, m) \<Rightarrow>
                     (case os_open env t m of
                        Some e \<Rightarrow> Inl e
                      | None \<Rightarrow> Inr (emit [OpenFile t m] s))) of
             Inl e \<Rightarrow> (Raised e, s)
           | Inr s0 \<Rightarrow>
               (case try_launch env command command_parts r s0 of
                  (None, s1) \<Rightarrow> (Returned, close_redirects r s1)
                | (Some e, s1) \<Rightarrow>
                    (if e = FileNotFoundError then
                       (Returned,
                        close_redirects r (emit [Print (command_name @ '': command not found'')] s1))
                     else if is_Exception e then
                       (Returned,
                        close_redirects r
                          (emit [Print (''Error executing command: '' @ exn_str e)] s1))
                     else (Raised e, close_redirects r s1)))))"

definition run_external ::
  "os_env \<Rightarrow> string \<Rightarrow> string \<Rightarrow> string list \<Rightarrow> shell \<Rightarrow> outcome \<times> shell" where
  "run_external env command command_name parts s =
     (if CHR ''|'' \<in> set command then run_pipeline env command s
      else run_single env command command_name parts s)"

section \<open>The dispatch loop\<close>

definition dispatch ::
  "os_env \<Rightarrow> string \<Rightarrow> string list \<Rightarrow> shell \<Rightarrow> outcome \<times> shell" where
  "dispatch env command parts s =
     (case parts of
        [] \<Rightarrow> (Raised IndexError, s)
      | command_name # args \<Rightarrow>
          (case lookup_builtin command_name of
             Some B_exit \<Rightarrow> builtin_exit s
           | Some B_alias \<Rightarrow> builtin_alias args s
           | Some B_unalias \<Rightarrow> builtin_unalias args s
           | Some B_jobs \<Rightarrow> builtin_jobs env s
           | Some B_fg \<Rightarrow> builtin_fg env args s
           | Some B_bg \<Rightarrow> builtin_bg env args s
           | Some B_echo \<Rightarrow> builtin_echo args s
           | Some B_sleep \<Rightarrow> builtin_sleep env args s
           | Some B_collaborator \<Rightarrow>
               (case collaborator env command_name args of
                  Some e \<Rightarrow> (Raised e, s)
                | None \<Rightarrow> (Delegated command_name, s))
           | None \<Rightarrow> run_external env command command_name parts s))"

text \<open>
  \<open>MyShell.execute_command\<close>: tokenize, expand an alias of the first word once (the
  expanded text replaces \<open>command\<close>), then dispatch. \<open>parts[0]\<close> raises \<open>IndexError\<close>
  when there is no token.
\<close>

definition execute_command :: "os_env \<Rightarrow> string \<Rightarrow> shell \<Rightarrow> outcome \<times> shell" where
  "execute_command env command s =
     (if command = [] then (Returned, s)
      else
        (case shlex_split command of
           Inl e \<Rightarrow> (Raised e, s)
         | Inr parts \<Rightarrow>
             (case parts of
                [] \<Rightarrow> (Raised IndexError, s)
              | command_name # args \<Rightarrow>
                  (case map_of (aliases s) command_name of
                     None \<Rightarrow> dispatch env command parts s
                   | Some a \<Rightarrow>
                       (let command' = a @ '' '' @ join '' '' args in
                        case shlex_split command' of
                          Inl e \<Rightarrow> (Raised e, s)
                        | Inr parts' \<Rightarrow> dispatch env command' parts' s)))))"

text \<open>
  \<open>MyShell.myshell\<close> on the inputs typed at the prompt: a line, the end of the input,
  or a keyboard interrupt. Only \<open>input()\<close> is inside the \<open>try\<close>; an exception that
  leaves \<open>execute_command\<close> leaves the loop and the program. The session is \<open>Prompting\<close>
  when the inputs are used up and the loop would read the next line.
\<close>

datatype input = Line string | EOF | Interrupt

datatype session = Prompting | Ended | Crashed exn

fun myshell :: "os_env \<Rightarrow> input list \<Rightarrow> shell \<Rightarrow> session \<times> shell" where
  "myshell env [] s = (Prompting, s)"
| "myshell env (EOF # rest) s = (Ended, emit [Print (CHR 0x0A # ''Exiting...'')] s)"
| "myshell env (Interrupt # rest) s = myshell env rest (emit [Print [CHR 0x0A]] s)"
| "myshell env (Line cmd # rest) s =
     (let s1 = s\<lparr>foreground_command := Some (py_strip cmd)\<rparr> in
      if py_strip cmd \<noteq> [] then
        (case execute_command env (py_strip cmd) s1 of
           (Raised e, s2) \<Rightarrow> (Crashed e, s2)
         | (_, s2) \<Rightarrow>
             myshell env rest (s2\<lparr>foreground_process := None, foreground_command := None\<rparr>))
      else myshell env rest s1)"

section \<open>Sample environments and states\<close>

text \<open>
  \<open>calm_env\<close>: every program starts, every file opens, every process is still alive
  when polled, and no signal arrives during a wait. The others differ from it in one
  field each.
\<close>

definition calm_env :: os_env where
  "calm_env =
     \<lparr>os_spawn = (\<lambda>_. None), os_open = (\<lambda>_ _. None), poll_alive = (\<lambda>_. True),
      wait_interrupt = (\<lambda>_. False), wait_sigtstp = (\<lambda>_. False),
      os_sleep = (\<lambda>_. None), collaborator = (\<lambda>_ _. None)\<rparr>"

definition suspending_env :: os_env where
  "suspending_env = calm_env\<lparr>wait_sigtstp := (\<lambda>_. True)\<rparr>"

definition interrupting_env :: os_env where
  "interrupting_env = calm_env\<lparr>wait_interrupt := (\<lambda>_. True)\<rparr>"

definition reaping_env :: os_env where
  "reaping_env = calm_env\<lparr>poll_alive := (\<lambda>p. p = 0)\<rparr>"

text \<open>The shell after \<open>xterm &\<close> and \<open>make &\<close>.\<close>

definition two_jobs :: shell where
  "two_jobs =
     \<lparr>aliases = [],
      jobs = [(1, \<lparr>process = 0, job_command = ''xterm'', status = Running\<rparr>),
              (2, \<lparr>process = 1, job_command = ''make'', status = Running\<rparr>)],
      next_job_id = 3, foreground_process = None, foreground_command = None,
      next_pid = 2, trace = []\<rparr>"

section \<open>Vocabulary of the claims\<close>

text \<open>The four redirection operators that the single-stage scan looks for.\<close>

definition is_redirect_op :: "string \<Rightarrow> bool" where
  "is_redirect_op part = (part = ''>'' \<or> part = ''>>'' \<or> part = ''2>'' \<or> part = ''&>'')"

text \<open>The four messages printed for an operator without a target all start alike.\<close>

definition is_missing_target_message :: "string \<Rightarrow> bool" where
  "is_missing_target_message msg = (take 29 msg = ''Error: No file specified for '')"




text \<open>
  The specification counts the pipe operators that are \<^emph>\<open>unquoted\<close>. \<open>spec_unquoted_pipes\<close>
  follows those words, not the source: a \<open>|\<close> counts unless it stands between quotes or
  after an escape character, with the quoting rules of the tokenizer.
\<close>

fun unquoted_pipes :: "char option \<Rightarrow> string \<Rightarrow> nat" where
  "unquoted_pipes q [] = 0"
| "unquoted_pipes None (c # cs) =
     (if c = CHR ''|'' then Suc (unquoted_pipes None cs)
      else if shlex_quote c then unquoted_pipes (Some c) cs
      else if shlex_escape c then unquoted_pipes None (drop 1 cs)
      else unquoted_pipes None cs)"
| "unquoted_pipes (Some q) (c # cs) =
     (if c = q then unquoted_pipes None cs
      else if shlex_escape c \<and> q = CHR 0x22 then unquoted_pipes (Some q) (drop 1 cs)
      else unquoted_pipes (Some q) cs)"

definition spec_unquoted_pipes :: "string \<Rightarrow> nat" where
  "spec_unquoted_pipes command = unquoted_pipes None command"

text \<open>The processes started, in order, among the events of a trace.\<close>

fun is_spawn :: "event \<Rightarrow> bool" where
  "is_spawn (Spawn p argv i out err) = True"
| "is_spawn _ = False"

definition spawns :: "event list \<Rightarrow> event list" where
  "spawns es = filter is_spawn es"






section \<open>Properties of the engine\<close>

subsection \<open>Auxiliary facts\<close>

lemma shlex_split_Nil: "shlex_split [] = Inr []"
  by (simp add: shlex_split_def emit_last_def)

lemma lookup_fg: "lookup_builtin ''fg'' = Some B_fg"
  by (simp add: lookup_builtin_def)

lemma lookup_jobs: "lookup_builtin ''jobs'' = Some B_jobs"
  by (simp add: lookup_builtin_def)

lemma lookup_bg: "lookup_builtin ''bg'' = Some B_bg"
  by (simp add: lookup_builtin_def)

lemma lookup_echo: "lookup_builtin ''echo'' = Some B_echo"
  by (simp add: lookup_builtin_def)

lemma lookup_sleep: "lookup_builtin ''sleep'' = Some B_sleep"
  by (simp add: lookup_builtin_def)

lemma py_str_1: "py_str 1 = ''1''"
  by code_simp

lemma py_str_2: "py_str 2 = ''2''"
  by code_simp

lemma py_str_3: "py_str 3 = ''3''"
  by code_simp

lemma execute_command_unaliased:
  assumes "shlex_split command = Inr (command_name # args)"
      and "map_of (aliases s) command_name = None"
  shows "execute_command env command s = dispatch env command (command_name # args) s"
proof -
  have "command \<noteq> []" using assms(1) by (auto simp: shlex_split_Nil)
  then show ?thesis using assms by (simp add: execute_command_def)
qed

subsection \<open>The dispatch loop and errors\<close>

text \<open>
  Claim C1 says that every error of one command line is caught at the dispatch loop and
  the session goes on to the next prompt, an unbalanced quote included. In \<open>myshell\<close> only
  \<open>input()\<close> is guarded: the \<open>ValueError\<close> that \<open>shlex.split\<close> raises on the line
  \<open>echo "hi\<close> leaves \<open>execute_command\<close> and the loop, and the next line is never run.
\<close>

theorem unbalanced_quote_ends_session:
  "myshell calm_env [Line (''echo '' @ [CHR 0x22] @ ''hi''), Line ''echo ok''] (init_shell [])
     = (Crashed (ValueError ''No closing quotation''),
        (init_shell [])\<lparr>foreground_command := Some (''echo '' @ [CHR 0x22] @ ''hi'')\<rparr>)"
  by code_simp

subsection \<open>The suspend signal\<close>

text \<open>
  Claim C2 says that a foreground process being waited on when the suspend signal arrives
  is sent the signal and becomes a suspended job. Nothing in \<open>main.py\<close> ever stores a
  process in \<open>self.foreground_process\<close>, so the handler finds nothing to suspend: with
  the signal arriving while the shell waits for \<open>vim notes\<close>, no signal is forwarded,
  nothing is printed, no job is registered and the counter stays at 1.
\<close>

theorem suspend_signal_during_wait_does_nothing:
  "myshell suspending_env [Line ''vim notes''] (init_shell [])
     = (Prompting,
        (init_shell [])\<lparr>next_pid := 1,
          trace := [Spawn 0 [''vim'', ''notes''] Inherit Inherit Inherit, Wait 0]\<rparr>)"
  by code_simp

subsection \<open>\<open>bg\<close>\<close>

text \<open>Whenever the job id is in the table, the \<open>bg\<close> branch raises.\<close>

lemma bg_raises_for_known_job:
  assumes "shlex_split command = Inr (''bg'' # a # rest)"
      and "map_of (aliases s) ''bg'' = None"
      and "py_isdigit a"
      and "py_int a = Inr job_id"
      and "job_id \<in> fst ` set (jobs s)"
  shows "execute_command env command s =
           (Raised (UnboundLocalError
              ''cannot access local variable 'job_info' where it is not associated with a value''), s)"
  using execute_command_unaliased[OF assms(1,2)] assms(3,4,5)
  by (simp add: dispatch_def lookup_bg builtin_bg_def bg_body_def)

text \<open>
  Claim C3 says that \<open>bg <id>\<close> either resumes a suspended job or reports an error, and
  never raises an uncaught error. After \<open>xterm &\<close> has registered job 1, \<open>bg 1\<close> reads
  the unbound local \<open>job_info\<close>: the \<open>UnboundLocalError\<close> ends the session.
\<close>

theorem bg_on_known_job_ends_session:
  "myshell calm_env [Line ''xterm &'', Line ''bg 1'', Line ''jobs''] (init_shell [])
     = (Crashed (UnboundLocalError
          ''cannot access local variable 'job_info' where it is not associated with a value''),
        (init_shell [])\<lparr>
          jobs := [(1, \<lparr>process = 0, job_command = ''xterm'', status = Running\<rparr>)],
          next_job_id := 2, foreground_command := Some ''bg 1'', next_pid := 1,
          trace := [Spawn 0 [''xterm''] Inherit PIPE PIPE, Print ''[1] xterm &'']\<rparr>)"
  by code_simp

subsection \<open>\<open>jobs\<close>\<close>

lemma list_jobs_eq:
  "list_jobs env snap s =
     s\<lparr>jobs := filter (\<lambda>(i, j). i \<notin> fst ` {x \<in> set snap. \<not> poll_alive env (process (snd x))})
                 (jobs s),
       trace := trace s @
         map (\<lambda>(i, j). Print (''['' @ py_str i @ ''] '' @
                (if poll_alive env (process j) then ''Running'' else ''Done'') @
                '' '' @ job_command j)) snap\<rparr>"
proof (induction snap arbitrary: s)
  case Nil
  then show ?case by simp
next
  case (Cons x snap)
  obtain i j where x: "x = (i, j)" by (cases x)
  show ?case
  proof (cases "poll_alive env (process j)")
    case True
    have "{y \<in> set ((i, j) # snap). \<not> poll_alive env (process (snd y))}
        = {y \<in> set snap. \<not> poll_alive env (process (snd y))}"
      using True by auto
    then show ?thesis
      unfolding x using True by (simp add: Cons.IH emit_def Let_def)
  next
    case False
    have dead: "fst ` {x \<in> set ((i, j) # snap). \<not> poll_alive env (process (snd x))}
        = insert i (fst ` {x \<in> set snap. \<not> poll_alive env (process (snd x))})"
      using False by force
    have "filter (\<lambda>(i', j'). i' \<notin> fst ` {x \<in> set snap. \<not> poll_alive env (process (snd x))})
            (AList.delete i (jobs s))
        = filter (\<lambda>(i', j'). i' \<notin> fst ` {x \<in> set ((i, j) # snap).
                                          \<not> poll_alive env (process (snd x))}) (jobs s)"
      unfolding dead by (auto simp: AList.delete_eq intro!: filter_cong)
    then show ?thesis
      unfolding x using False by (simp add: Cons.IH emit_def Let_def)
  qed
qed

lemma filter_dead_distinct:
  assumes "distinct (map fst xs)"
  shows "filter (\<lambda>(i, j). i \<notin> fst ` {x \<in> set xs. \<not> P (snd x)}) xs = filter (\<lambda>(i, j). P j) xs"
proof (rule filter_cong[OF refl])
  fix x assume "x \<in> set xs"
  obtain i j where x: "x = (i, j)" by (cases x)
  have "i \<in> fst ` {x \<in> set xs. \<not> P (snd x)} \<longleftrightarrow> \<not> P j"
  proof
    assume "i \<in> fst ` {x \<in> set xs. \<not> P (snd x)}"
    then obtain j' where "(i, j') \<in> set xs" "\<not> P j'" by auto
    with assms \<open>x \<in> set xs\<close> x have "j' = j" by (meson eq_key_imp_eq_value)
    with \<open>\<not> P j'\<close> show "\<not> P j" by simp
  next
    assume "\<not> P j"
    with \<open>x \<in> set xs\<close> x show "i \<in> fst ` {x \<in> set xs. \<not> P (snd x)}" by force
  qed
  then show "(case x of (i, j) \<Rightarrow> i \<notin> fst ` {x \<in> set xs. \<not> P (snd x)}) = (case x of (i, j) \<Rightarrow> P j)"
    by (simp add: x)
qed

text \<open>
  Claim C8: \<open>jobs\<close> polls every job, prints one line \<open>[id] status command\<close> per job, in
  the order of the table, and removes exactly the jobs it found done; the jobs whose
  process is alive stay. The keys of a dictionary are distinct.
\<close>

theorem jobs_lists_and_reaps:
  assumes tok: "shlex_split command = Inr (''jobs'' # args)"
      and noalias: "map_of (aliases s) ''jobs'' = None"
      and dist: "distinct (map fst (jobs s))"
  shows "execute_command env command s =
           (Returned,
            s\<lparr>jobs := filter (\<lambda>(job_id, job_info). poll_alive env (process job_info)) (jobs s),
              trace := trace s @
                map (\<lambda>(job_id, job_info).
                       Print (''['' @ py_str job_id @ ''] '' @
                              (if poll_alive env (process job_info) then ''Running'' else ''Done'') @
                              '' '' @ job_command job_info))
                    (jobs s)\<rparr>)"
proof -
  have "execute_command env command s = builtin_jobs env s"
    using execute_command_unaliased[OF tok noalias] by (simp add: dispatch_def lookup_jobs)
  then show ?thesis
    by (simp add: builtin_jobs_def list_jobs_eq
          filter_dead_distinct[OF dist, of "\<lambda>j. poll_alive env (process j)"])
qed

theorem jobs_lists_and_reaps_witness:
  "execute_command reaping_env ''jobs'' two_jobs =
     (Returned,
      two_jobs\<lparr>jobs := [(1, \<lparr>process = 0, job_command = ''xterm'', status = Running\<rparr>)],
        trace := [Print ''[1] Running xterm'', Print ''[2] Done make'']\<rparr>)"
proof -
  have h1: "shlex_split ''jobs'' = Inr (''jobs'' # [])" by code_simp
  have h2: "map_of (aliases two_jobs) ''jobs'' = None" by (simp add: two_jobs_def)
  have h3: "distinct (map fst (jobs two_jobs))" by (simp add: two_jobs_def)
  show ?thesis
    using jobs_lists_and_reaps[OF h1 h2 h3, of reaping_env]
    by (simp add: two_jobs_def reaping_env_def calm_env_def py_str_1 py_str_2)
qed

subsection \<open>\<open>fg\<close>\<close>

lemma handle_signal_no_foreground:
  "foreground_process s = None \<Longrightarrow> handle_signal signum s = s"
  by (simp add: handle_signal_def)

lemma wait_for_no_foreground:
  "foreground_process s = None \<Longrightarrow> wait_for env p s = (wait_interrupt env p, emit [Wait p] s)"
  by (simp add: wait_for_def Let_def emit_def handle_signal_no_foreground)

text \<open>
  \<open>fg <id>\<close> with an argument that \<open>int\<close> converts: for a job in the table the job is
  removed, its command is printed and the shell waits for its process; a keyboard
  interrupt during the wait is caught and reported as \<open>^C\<close>, the command returns normally
  and no signal is sent to the child. For an id not in the table an error is printed and
  the table is unchanged.
\<close>

lemma fg_with_integer_id:
  assumes tok: "shlex_split command = Inr (''fg'' # a # rest)"
      and noalias: "map_of (aliases s) ''fg'' = None"
      and digits: "py_isdigit a"
      and conv: "py_int a = Inr job_id"
      and nofg: "foreground_process s = None"
  shows "case map_of (jobs s) job_id of
           Some job_info \<Rightarrow>
             execute_command env command s =
               (Returned,
                s\<lparr>jobs := AList.delete job_id (jobs s),
                  trace := trace s @ [Print (job_command job_info), Wait (process job_info)] @
                           (if wait_interrupt env (process job_info) then [Print ''^C''] else [])\<rparr>)
             \<and> job_id \<notin> fst ` set (AList.delete job_id (jobs s))
         | None \<Rightarrow>
             execute_command env command s =
               (Returned, s\<lparr>trace := trace s @ [Print (''fg: job not found: '' @ py_str job_id)]\<rparr>)"
proof -
  have ex: "execute_command env command s = builtin_fg env (a # rest) s"
    using execute_command_unaliased[OF tok noalias] by (simp add: dispatch_def lookup_fg)
  show ?thesis
  proof (cases "map_of (jobs s) job_id")
    case None
    then show ?thesis using digits conv by (simp add: ex builtin_fg_def emit_def)
  next
    case (Some job_info)
    have "foreground_process (emit [Print (job_command job_info)]
            (s\<lparr>jobs := AList.delete job_id (jobs s)\<rparr>)) = None"
      using nofg by (simp add: emit_def)
    from wait_for_no_foreground[OF this]
    show ?thesis using Some digits conv
      by (simp add: ex builtin_fg_def Let_def emit_def AList.delete_eq image_iff)
  qed
qed

lemma fg_with_integer_id_example:
  "execute_command interrupting_env ''fg 2'' two_jobs =
     (Returned,
      two_jobs\<lparr>jobs := [(1, \<lparr>process = 0, job_command = ''xterm'', status = Running\<rparr>)],
        trace := [Print ''make'', Wait 1, Print ''^C'']\<rparr>)"
proof -
  have h1: "shlex_split ''fg 2'' = Inr (''fg'' # ''2'' # [])" by code_simp
  have h2: "map_of (aliases two_jobs) ''fg'' = None" by (simp add: two_jobs_def)
  have h3: "py_isdigit ''2''" by code_simp
  have h4: "foreground_process two_jobs = None" by (simp add: two_jobs_def)
  have h5: "py_int ''2'' = Inr 2" by code_simp
  show ?thesis
    using fg_with_integer_id[OF h1 h2 h3 h5 h4, of interrupting_env]
    by (simp add: two_jobs_def interrupting_env_def calm_env_def)
qed

text \<open>A word of one repeated plain character is one token, and \<open>strip\<close> leaves a
  line alone that neither starts nor ends with white space.\<close>

lemma lex_word_replicate:
  "\<not> shlex_whitespace c \<Longrightarrow> \<not> shlex_quote c \<Longrightarrow> \<not> shlex_escape c \<Longrightarrow>
   lex InWord tok quoted (replicate n c) = Inr (emit_last (tok @ replicate n c) quoted)"
  by (induction n arbitrary: tok) (simp_all add: replicate_app_Cons_same)

lemma py_strip_plain_ends:
  "\<not> py_isspace x \<Longrightarrow> \<not> py_isspace y \<Longrightarrow> py_strip (x # xs @ [y]) = x # xs @ [y]"
  by (simp add: py_strip_def)

lemma py_str_4301: "py_str 4301 = ''4301''"
  by code_simp

lemma fg_raises_when_int_raises:
  assumes tok: "shlex_split command = Inr (''fg'' # a # rest)"
      and noalias: "map_of (aliases s) ''fg'' = None"
      and digits: "py_isdigit a"
      and conv: "py_int a = Inl e"
  shows "execute_command env command s = (Raised e, s)"
  using execute_command_unaliased[OF tok noalias] digits conv
  by (simp add: dispatch_def lookup_fg builtin_fg_def)

lemma fg_long_id_ends_session:
  "myshell calm_env [Line (''fg '' @ replicate 4301 CHR ''0''), Line ''echo ok''] two_jobs =
     (Crashed (ValueError
        ''Exceeds the limit (4300 digits) for integer string conversion: value has 4301 digits; use sys.set_int_max_str_digits() to increase the limit''),
      two_jobs\<lparr>foreground_command := Some (''fg '' @ replicate 4301 CHR ''0'')\<rparr>)"
proof -
  define zs where "zs = replicate 4301 CHR ''0''"
  define s1 where "s1 = two_jobs\<lparr>foreground_command := Some (''fg '' @ zs)\<rparr>"
  have suc: "(4301::nat) = Suc 4300" by simp
  have zs_cons: "zs = CHR ''0'' # replicate 4300 CHR ''0''"
    unfolding zs_def suc by (rule replicate_Suc)
  have zs_snoc: "zs = replicate 4300 CHR ''0'' @ [CHR ''0'']"
    unfolding zs_cons by (simp add: replicate_append_same)
  have plain: "\<not> shlex_whitespace CHR ''0''" "\<not> shlex_quote CHR ''0''" "\<not> shlex_escape CHR ''0''"
    by (simp_all add: shlex_whitespace_def shlex_quote_def shlex_escape_def)
  have tok: "shlex_split (''fg '' @ zs) = Inr (''fg'' # zs # [])"
    using lex_word_replicate[OF plain, of "''0''" False 4300]
    by (simp add: zs_cons shlex_split_def shlex_whitespace_def shlex_quote_def shlex_escape_def
          emit_last_def cons_token_def)
  have strip: "py_strip (''fg '' @ zs) = ''fg '' @ zs"
    using py_strip_plain_ends[of "CHR ''f''" "CHR ''0''" "''g '' @ replicate 4300 CHR ''0''"]
    by (simp add: zs_snoc py_isspace_def)
  have digits: "py_isdigit zs"
    by (simp add: zs_def py_isdigit_def list_all_iff is_digit_char_def is_ascii_digit_def)
  have conv: "py_int zs = Inl (ValueError
        ''Exceeds the limit (4300 digits) for integer string conversion: value has 4301 digits; use sys.set_int_max_str_digits() to increase the limit'')"
    by (simp add: zs_def py_int_def Let_def takeWhile_replicate is_ascii_digit_def
          int_max_str_digits_def py_str_4301)
  have noalias: "map_of (aliases s1) ''fg'' = None" by (simp add: s1_def two_jobs_def)
  have nonempty: "''fg '' @ zs \<noteq> []" by simp
  note run = fg_raises_when_int_raises[OF tok noalias digits conv, of calm_env]
  show ?thesis
    unfolding zs_def[symmetric]
    by (simp only: myshell.simps Let_def strip nonempty if_True s1_def[symmetric] run
          prod.case outcome.case not_False_eq_True)
qed

text \<open>
  Claim C7 says that \<open>fg <id>\<close> for an id without a job reports an error and leaves the
  table unchanged. The branch guards \<open>int(args[0])\<close> with \<open>args[0].isdigit()\<close>, which
  also holds for the superscript digits and for digit strings longer than \<open>int\<close>
  accepts: on \<open>fg\<close> followed by a superscript two, and on \<open>fg\<close> followed by 4301 zeros,
  \<open>int\<close> raises \<open>ValueError\<close>, nothing catches it, and the session ends before the next
  line is run. The \<open>sleep\<close> branch catches the \<open>ValueError\<close> of the same conversion.
\<close>

theorem fg_unconvertible_id_ends_session:
  "myshell calm_env [Line (''fg '' @ [CHR 0xB2]), Line ''echo ok''] two_jobs =
     (Crashed (ValueError (''invalid literal for int() with base 10: '' @
                           [CHR 0x27, CHR 0xB2, CHR 0x27])),
      two_jobs\<lparr>foreground_command := Some (''fg '' @ [CHR 0xB2])\<rparr>) \<and>
   myshell calm_env [Line (''fg '' @ replicate 4301 CHR ''0''), Line ''echo ok''] two_jobs =
     (Crashed (ValueError
        ''Exceeds the limit (4300 digits) for integer string conversion: value has 4301 digits; use sys.set_int_max_str_digits() to increase the limit''),
      two_jobs\<lparr>foreground_command := Some (''fg '' @ replicate 4301 CHR ''0'')\<rparr>) \<and>
   execute_command calm_env (''sleep '' @ [CHR 0xB2]) two_jobs =
     (Returned, two_jobs\<lparr>trace := [Print ''sleep: invalid time interval'']\<rparr>)"
proof -
  have superscript:
    "myshell calm_env [Line (''fg '' @ [CHR 0xB2]), Line ''echo ok''] two_jobs =
       (Crashed (ValueError (''invalid literal for int() with base 10: '' @
                             [CHR 0x27, CHR 0xB2, CHR 0x27])),
        two_jobs\<lparr>foreground_command := Some (''fg '' @ [CHR 0xB2])\<rparr>)"
    by code_simp
  have sibling:
    "execute_command calm_env (''sleep '' @ [CHR 0xB2]) two_jobs =
       (Returned, two_jobs\<lparr>trace := [Print ''sleep: invalid time interval'']\<rparr>)"
    by code_simp
  show ?thesis
    by (rule conjI[OF superscript conjI[OF fg_long_id_ends_session sibling]])
qed

subsection \<open>Redirection without a target\<close>

lemma scan_parts_step:
  "\<not> is_redirect_op p \<Longrightarrow> scan_parts acc (p # rest) = scan_parts (acc @ [p]) rest"
  unfolding is_redirect_op_def by (subst scan_parts.simps) simp

lemma scan_parts_skip:
  "\<forall>p \<in> set pre. \<not> is_redirect_op p \<Longrightarrow>
   scan_parts acc (pre @ rest) = scan_parts (acc @ pre) rest"
proof (induction pre arbitrary: acc)
  case Nil
  then show ?case by simp
next
  case (Cons p pre)
  then have "\<not> is_redirect_op p" and rest: "\<forall>p \<in> set pre. \<not> is_redirect_op p" by simp_all
  then show ?case
    using scan_parts_step[of p acc "pre @ rest"] Cons.IH[OF rest, of "acc @ [p]"]
    by (simp del: scan_parts.simps)
qed



lemma scan_parts_missing_target:
  assumes "is_redirect_op op"
  shows "\<exists>msg. scan_parts acc [op] = Abort msg \<and> is_missing_target_message msg"
proof -
  have "op = ''>'' \<or> op = ''>>'' \<or> op = ''2>'' \<or> op = ''&>''"
    using assms by (simp only: is_redirect_op_def)
  then show ?thesis
  proof (elim disjE)
    assume "op = ''>''"
    then have "scan_parts acc [op] = Abort ''Error: No file specified for output redirection.''"
      by simp
    moreover have "is_missing_target_message ''Error: No file specified for output redirection.''"
      by (simp add: is_missing_target_message_def)
    ultimately show ?thesis by (rule_tac x = "''Error: No file specified for output redirection.''" in exI) (rule conjI)
  next
    assume "op = ''>>''"
    then have "scan_parts acc [op] = Abort ''Error: No file specified for appending output.''"
      by simp
    moreover have "is_missing_target_message ''Error: No file specified for appending output.''"
      by (simp add: is_missing_target_message_def)
    ultimately show ?thesis by (rule_tac x = "''Error: No file specified for appending output.''" in exI) (rule conjI)
  next
    assume "op = ''2>''"
    then have "scan_parts acc [op] = Abort ''Error: No file specified for stderr redirection.''"
      by simp
    moreover have "is_missing_target_message ''Error: No file specified for stderr redirection.''"
      by (simp add: is_missing_target_message_def)
    ultimately show ?thesis by (rule_tac x = "''Error: No file specified for stderr redirection.''" in exI) (rule conjI)
  next
    assume "op = ''&>''"
    then have "scan_parts acc [op] = Abort ''Error: No file specified for stdout and stderr redirection.''"
      by simp
    moreover have "is_missing_target_message ''Error: No file specified for stdout and stderr redirection.''"
      by (simp add: is_missing_target_message_def)
    ultimately show ?thesis by (rule_tac x = "''Error: No file specified for stdout and stderr redirection.''" in exI) (rule conjI)
  qed
qed


lemma dispatch_external:
  "lookup_builtin command_name = None \<Longrightarrow>
   dispatch env command (command_name # args) s =
     run_external env command command_name (command_name # args) s"
  by (simp add: dispatch_def)

lemma execute_command_single:
  assumes tok: "shlex_split command = Inr (command_name # args)"
      and noalias: "map_of (aliases s) command_name = None"
      and external: "lookup_builtin command_name = None"
      and nopipe: "CHR ''|'' \<notin> set command"
  shows "execute_command env command s =
           run_single env command command_name (command_name # args) s"
  using execute_command_unaliased[OF tok noalias] dispatch_external[OF external] nopipe
  by (simp add: run_external_def)

text \<open>
  Claim C5, amended: for a command line without any \<open>|\<close> character whose first word is
  neither an alias nor a built-in and whose first redirection operator is its last token,
  the command prints the missing-target message and returns: no file is opened and no
  process is started. \<open>echo\<close> is a built-in: unless it is aliased, \<open>echo hi >\<close> prints
  \<open>hi >\<close>, opens no file and starts no process.
\<close>

theorem missing_redirect_target_aborts:
  assumes tok: "shlex_split command = Inr (command_name # args)"
      and noalias: "map_of (aliases s) command_name = None"
      and external: "lookup_builtin command_name = None"
      and nopipe: "CHR ''|'' \<notin> set command"
      and shape: "command_name # args = pre @ [op]"
      and isop: "is_redirect_op op"
      and first: "\<forall>p \<in> set pre. \<not> is_redirect_op p"
  shows "(\<exists>msg. execute_command env command s = (Returned, s\<lparr>trace := trace s @ [Print msg]\<rparr>)
            \<and> is_missing_target_message msg)
         \<and> (map_of (aliases s) ''echo'' = None \<longrightarrow>
              execute_command env ''echo hi >'' s =
                (Returned, s\<lparr>trace := trace s @ [Print ''hi >'']\<rparr>))"
proof (rule conjI)
  obtain msg where msg: "scan_parts pre [op] = Abort msg"
    and mem: "is_missing_target_message msg"
    using scan_parts_missing_target[OF isop, of pre] by (elim exE conjE)
  have "scan_parts [] (pre @ [op]) = scan_parts ([] @ pre) [op]"
    by (rule scan_parts_skip[OF first])
  then have scan: "scan_parts [] (command_name # args) = Abort msg"
    using msg by (simp only: shape append_Nil)
  have "execute_command env command s =
          run_single env command command_name (command_name # args) s"
    by (rule execute_command_single[OF tok noalias external nopipe])
  then have "execute_command env command s = (Returned, s\<lparr>trace := trace s @ [Print msg]\<rparr>)"
    by (simp add: run_single_def scan emit_def del: scan_parts.simps)
  with mem show "\<exists>msg. execute_command env command s =
                   (Returned, s\<lparr>trace := trace s @ [Print msg]\<rparr>)
                 \<and> is_missing_target_message msg"
    by (intro exI[of _ msg] conjI)
next
  have tok_echo: "shlex_split ''echo hi >'' = Inr (''echo'' # [''hi'', ''>''])" by code_simp
  show "map_of (aliases s) ''echo'' = None \<longrightarrow>
          execute_command env ''echo hi >'' s =
            (Returned, s\<lparr>trace := trace s @ [Print ''hi >'']\<rparr>)"
  proof
    assume "map_of (aliases s) ''echo'' = None"
    from execute_command_unaliased[OF tok_echo this]
    show "execute_command env ''echo hi >'' s =
            (Returned, s\<lparr>trace := trace s @ [Print ''hi >'']\<rparr>)"
      by (simp add: dispatch_def lookup_echo builtin_echo_def emit_def)
  qed
qed

theorem missing_redirect_target_aborts_witness:
  "(\<exists>msg. execute_command calm_env ''cmd arg >>'' (init_shell []) =
            (Returned, (init_shell [])\<lparr>trace := trace (init_shell []) @ [Print msg]\<rparr>)
          \<and> is_missing_target_message msg)
   \<and> execute_command calm_env ''echo hi >'' (init_shell []) =
       (Returned, (init_shell [])\<lparr>trace := trace (init_shell []) @ [Print ''hi >'']\<rparr>)"
proof -
  have h1: "shlex_split ''cmd arg >>'' = Inr (''cmd'' # [''arg'', ''>>''])" by code_simp
  have h2: "map_of (aliases (init_shell [])) ''cmd'' = None" by (simp add: init_shell_def)
  have h3: "lookup_builtin ''cmd'' = None" by code_simp
  have h4: "CHR ''|'' \<notin> set ''cmd arg >>''" by simp
  have h5: "''cmd'' # [''arg'', ''>>''] = [''cmd'', ''arg''] @ [''>>'']" by simp
  have h6: "is_redirect_op ''>>''" by (simp add: is_redirect_op_def)
  have h7: "\<forall>p \<in> set [''cmd'', ''arg'']. \<not> is_redirect_op p" by (simp add: is_redirect_op_def)
  have h8: "map_of (aliases (init_shell [])) ''echo'' = None" by (simp add: init_shell_def)
  from missing_redirect_target_aborts[OF h1 h2 h3 h4 h5 h6 h7, of calm_env] h8
  show ?thesis by (elim conjE) (intro conjI, assumption, erule mp, assumption)
qed

text \<open>
  Claim C5 as stated fails: the scan stops at the first operator, so in
  \<open>cmd > out >\<close> the file \<open>out\<close> is opened and \<open>cmd\<close> is started although the last
  token is an operator without a target; and the built-in \<open>echo hi >\<close> prints
  \<open>hi >\<close> rather than an error message, as does \<open>say hi >\<close> when \<open>say\<close> is an alias of
  \<open>echo\<close>. A \<open>|\<close> between quotes makes the line a pipeline for the source: \<open>cmd "a|b" >\<close>
  is one command of three tokens, the last an operator, and no message is printed: the
  piece \<open>cmd "a\<close> does not tokenize and the \<open>ValueError\<close> leaves \<open>execute_command\<close>.
\<close>

theorem redirect_before_trailing_operator_counterexample:
  "shlex_split ''cmd > out >'' = Inr [''cmd'', ''>'', ''out'', ''>'']
   \<and> execute_command calm_env ''cmd > out >'' (init_shell []) =
       (Returned,
        (init_shell [])\<lparr>next_pid := 1,
          trace := [OpenFile ''out'' Truncate, Spawn 0 [''cmd''] Inherit (File ''out'') Inherit,
                    Wait 0, CloseFile ''out'']\<rparr>)
   \<and> execute_command calm_env ''echo hi >'' (init_shell []) =
       (Returned, (init_shell [])\<lparr>trace := [Print ''hi >'']\<rparr>)
   \<and> execute_command calm_env ''say hi >'' (init_shell [(''say'', ''echo'')]) =
       (Returned, (init_shell [(''say'', ''echo'')])\<lparr>trace := [Print ''hi >'']\<rparr>)
   \<and> shlex_split (''cmd '' @ [CHR 0x22] @ ''a|b'' @ [CHR 0x22] @ '' >'') =
       Inr [''cmd'', ''a|b'', ''>'']
   \<and> spec_unquoted_pipes (''cmd '' @ [CHR 0x22] @ ''a|b'' @ [CHR 0x22] @ '' >'') = 0
   \<and> execute_command calm_env (''cmd '' @ [CHR 0x22] @ ''a|b'' @ [CHR 0x22] @ '' >'')
         (init_shell []) =
       (Raised (ValueError ''No closing quotation''), init_shell [])"
  by code_simp

subsection \<open>Redirection and background\<close>







lemma try_launch_background_started:
  assumes "endswith command CHR ''&''"
      and "shlex_split (py_strip (join '' '' (butlast command_parts))) = Inr bg_parts"
      and "bg_parts \<noteq> []"
      and "os_spawn env bg_parts = None"
  shows "try_launch env command command_parts r s =
           (None,
            s\<lparr>jobs := AList.update (next_job_id s)
                        \<lparr>process = next_pid s,
                         job_command = py_strip (join '' '' (butlast command_parts)),
                         status = Running\<rparr> (jobs s),
              next_job_id := next_job_id s + 1,
              next_pid := Suc (next_pid s),
              trace := trace s @
                [Spawn (next_pid s) bg_parts Inherit PIPE PIPE,
                 Print (''['' @ py_str (next_job_id s) @ ''] '' @
                        py_strip (join '' '' (butlast command_parts)) @ '' &'')]\<rparr>)"
  using assms by (simp add: try_launch_def Let_def spawn_error_def spawn_def emit_def)




subsection \<open>Background launch\<close>

text \<open>
  Claim C6, amended: a command line without any \<open>|\<close> character and without redirection
  operator whose first word is neither an alias nor a built-in, whose text ends with
  \<open>&\<close> and whose last token is \<open>&\<close>. The tokens before the last are
  joined with spaces and tokenized again; when this gives at least one word and the
  program starts, the process is started with both outputs piped and is not waited for,
  it is registered under the next job id with status \<open>Running\<close> and the joined text as
  its command, \<open>[id] text &\<close> is printed and the counter is incremented.
\<close>

theorem background_launch_registers_job:
  assumes tok: "shlex_split command = Inr (command_name # args)"
      and noalias: "map_of (aliases s) command_name = None"
      and external: "lookup_builtin command_name = None"
      and nopipe: "CHR ''|'' \<notin> set command"
      and amp: "endswith command CHR ''&''"
      and trailing: "last (command_name # args) = ''&''"
      and noops: "\<forall>p \<in> set (command_name # args). \<not> is_redirect_op p"
      and retok: "shlex_split (py_strip (join '' '' (butlast (command_name # args)))) = Inr bg_parts"
      and nonempty: "bg_parts \<noteq> []"
      and starts: "os_spawn env bg_parts = None"
  shows "execute_command env command s =
           (Returned,
            s\<lparr>jobs := AList.update (next_job_id s)
                        \<lparr>process = next_pid s,
                         job_command = py_strip (join '' '' (butlast (command_name # args))),
                         status = Running\<rparr> (jobs s),
              next_job_id := next_job_id s + 1,
              next_pid := Suc (next_pid s),
              trace := trace s @
                [Spawn (next_pid s) bg_parts Inherit PIPE PIPE,
                 Print (''['' @ py_str (next_job_id s) @ ''] '' @
                        py_strip (join '' '' (butlast (command_name # args))) @ '' &'')]\<rparr>)"
proof -
  have "scan_parts [] ((command_name # args) @ []) = scan_parts ([] @ (command_name # args)) []"
    by (rule scan_parts_skip[OF noops])
  then have scan: "scan_parts [] (command_name # args) = Scanned (command_name # args) NoRedirect"
    by (simp del: scan_parts.simps add: scan_parts.simps(1))
  have ex: "execute_command env command s =
          run_single env command command_name (command_name # args) s"
    by (rule execute_command_single[OF tok noalias external nopipe])
  from try_launch_background_started[OF amp retok nonempty starts, of NoRedirect s]
  show ?thesis
    by (simp add: ex run_single_def scan del: scan_parts.simps)
qed

theorem background_launch_registers_job_witness:
  "execute_command calm_env ''xterm -e top &'' (init_shell []) =
     (Returned,
      (init_shell [])\<lparr>
        jobs := [(1, \<lparr>process = 0, job_command = ''xterm -e top'', status = Running\<rparr>)],
        next_job_id := 2, next_pid := 1,
        trace := [Spawn 0 [''xterm'', ''-e'', ''top''] Inherit PIPE PIPE,
                  Print ''[1] xterm -e top &'']\<rparr>)"
proof -
  have h1: "shlex_split ''xterm -e top &'' = Inr (''xterm'' # [''-e'', ''top'', ''&''])"
    by code_simp
  have h2: "map_of (aliases (init_shell [])) ''xterm'' = None" by (simp add: init_shell_def)
  have h3: "lookup_builtin ''xterm'' = None" by code_simp
  have h4: "CHR ''|'' \<notin> set ''xterm -e top &''" by simp
  have h5: "endswith ''xterm -e top &'' CHR ''&''" by (simp add: endswith_def)
  have h6: "last (''xterm'' # [''-e'', ''top'', ''&'']) = ''&''" by simp
  have h7: "\<forall>p \<in> set (''xterm'' # [''-e'', ''top'', ''&'']). \<not> is_redirect_op p"
    by (simp add: is_redirect_op_def)
  have h8: "shlex_split (py_strip (join '' '' (butlast (''xterm'' # [''-e'', ''top'', ''&'']))))
              = Inr [''xterm'', ''-e'', ''top'']" by code_simp
  have h9: "[''xterm'', ''-e'', ''top''] \<noteq> []" by simp
  have h10: "os_spawn calm_env [''xterm'', ''-e'', ''top''] = None" by (simp add: calm_env_def)
  have h11: "py_strip (join '' '' (butlast (''xterm'' # [''-e'', ''top'', ''&''])))
              = ''xterm -e top''" by code_simp
  have h12: "py_strip ''xterm -e top'' = ''xterm -e top''" by code_simp
  from background_launch_registers_job[OF h1 h2 h3 h4 h5 h6 h7 h8 h9 h10]
  show ?thesis by (simp add: h11 h12 init_shell_def py_str_1)
qed


text \<open>
  Claim C6 as stated fails on built-ins: \<open>sleep\<close> is one, so \<open>sleep 5 &\<close> sleeps in
  the shell itself for five seconds with \<open>&\<close> as an ignored argument; no process
  is started, no job is registered and nothing is printed. It fails too on a line with a
  \<open>|\<close> between quotes, which the source takes for a pipeline: \<open>xterm -T "a|b" &\<close> is one
  command whose last token is \<open>&\<close>, but the piece \<open>xterm -T "a\<close> does not tokenize, the
  \<open>ValueError\<close> leaves \<open>execute_command\<close>, and nothing is started or registered.
\<close>

theorem builtin_sleep_background_counterexample:
  "execute_command calm_env ''sleep 5 &'' (init_shell []) =
     (Returned, (init_shell [])\<lparr>trace := [Sleep 5]\<rparr>)
   \<and> shlex_split (''xterm -T '' @ [CHR 0x22] @ ''a|b'' @ [CHR 0x22] @ '' &'') =
       Inr [''xterm'', ''-T'', ''a|b'', ''&'']
   \<and> spec_unquoted_pipes (''xterm -T '' @ [CHR 0x22] @ ''a|b'' @ [CHR 0x22] @ '' &'') = 0
   \<and> execute_command calm_env (''xterm -T '' @ [CHR 0x22] @ ''a|b'' @ [CHR 0x22] @ '' &'')
         (init_shell []) =
       (Raised (ValueError ''No closing quotation''), init_shell [])"
  by code_simp

subsection \<open>Pipelines\<close>

lemma split_on_nonempty: "split_on c s \<noteq> []"
  by (induction s) (auto split: list.splits)


lemma tokenize_all_Inr:
  "tokenize_all ps = Inr stages \<Longrightarrow>
   length stages = length ps \<and> (\<forall>i < length ps. shlex_split (ps ! i) = Inr (stages ! i))"
proof (induction ps arbitrary: stages)
  case Nil
  then show ?case by simp
next
  case (Cons p ps)
  from Cons.prems obtain ws wss where ws: "shlex_split p = Inr ws"
    and wss: "tokenize_all ps = Inr wss" and st: "stages = ws # wss"
    by (auto split: sum.splits)
  from Cons.IH[OF wss] have len: "length wss = length ps"
    and nth: "\<forall>i < length ps. shlex_split (ps ! i) = Inr (wss ! i)" by simp_all
  show ?case
  proof (intro conjI allI impI)
    show "length stages = length (p # ps)" using len st by simp
  next
    fix i assume "i < length (p # ps)"
    then show "shlex_split ((p # ps) ! i) = Inr (stages ! i)"
      using ws nth st by (cases i) simp_all
  qed
qed





lemma spawns_append: "spawns (xs @ ys) = spawns xs @ spawns ys"
  by (simp add: spawns_def)




lemma build_pipeline_nonempty: "build_pipeline command = Inr stages \<Longrightarrow> stages \<noteq> []"
  using tokenize_all_Inr[of "split_on CHR ''|'' command" stages]
        split_on_nonempty[of "CHR ''|''" command]
  by (auto simp: build_pipeline_def)





subsection \<open>Job identifiers\<close>



































end
